theory Spec2Isabelle
  imports Main
begin

section \<open>JavaScript strings\<close>

text \<open>
  A JavaScript string is a sequence of UTF-16 code units. The model keeps the code units
  below 256 (one \<open>char\<close> each), which covers every literal the sources compare against.
  \<open>isWhiteSpace\<close> is the set that both \<^verbatim>\<open>String.prototype.trim\<close> and the regular
  expression \<^verbatim>\<open>\s\<close> use, cut to that range: tab, line feed, vertical tab, form feed,
  carriage return, space and no-break space.
\<close>

definition isWhiteSpace :: "char \<Rightarrow> bool" where
  "isWhiteSpace c \<longleftrightarrow>
     c = CHR 0x09 \<or> c = CHR 0x0A \<or> c = CHR 0x0B \<or> c = CHR 0x0C \<or> c = CHR 0x0D \<or>
     c = CHR 0x20 \<or> c = CHR 0xA0"

definition trim :: "string \<Rightarrow> string" where
  "trim s = rev (dropWhile isWhiteSpace (rev (dropWhile isWhiteSpace s)))"

fun startsWith :: "string \<Rightarrow> string \<Rightarrow> bool" where
  "startsWith s [] = True"
| "startsWith [] (p # ps) = False"
| "startsWith (c # cs) (p # ps) = (c = p \<and> startsWith cs ps)"

text \<open>\<^verbatim>\<open>s.includes(sub)\<close>: \<open>sub\<close> occurs in \<open>s\<close> as a contiguous run.\<close>

fun includes_str :: "string \<Rightarrow> string \<Rightarrow> bool" where
  "includes_str [] sub = (sub = [])"
| "includes_str (c # cs) sub = (startsWith (c # cs) sub \<or> includes_str cs sub)"

section \<open>The editor state machine (machines/editorMachine)\<close>

record EditorContext =
  content :: string
  isLoading :: bool
  error :: "string option"

datatype EditorEvent =
    CONTINUE_WRITING
  | CONTENT_UPDATED string
  | AI_RESPONSE string
  | ERROR string
  | RESET

datatype EditorState = idle | loading

text \<open>The guard \<^verbatim>\<open>hasContent\<close>: \<^verbatim>\<open>context.content.trim().length > 0\<close>.\<close>

definition hasContent :: "EditorContext \<Rightarrow> bool" where
  "hasContent c \<longleftrightarrow> length (trim (content c)) > 0"

text \<open>The machine's initial configuration and context.\<close>

definition initial :: "EditorState \<times> EditorContext" where
  "initial = (idle, \<lparr>content = [], isLoading = False, error = None\<rparr>)"

text \<open>The entry action of \<^verbatim>\<open>loading\<close>.\<close>

definition loading_entry :: "EditorContext \<Rightarrow> EditorContext" where
  "loading_entry c = c\<lparr>isLoading := True, error := None\<rparr>"

text \<open>
  One macrostep of the machine. A state's own handlers are looked up first, then the
  root's (\<^verbatim>\<open>RESET\<close> only); an event with no enabled transition leaves the configuration
  as it is. The handlers of \<^verbatim>\<open>CONTENT_UPDATED\<close> have no target, so they run their
  assignment without leaving or re-entering the state.
\<close>

fun transition :: "EditorState \<times> EditorContext \<Rightarrow> EditorEvent \<Rightarrow> EditorState \<times> EditorContext" where
  "transition (idle, c) CONTINUE_WRITING =
     (if hasContent c then (loading, loading_entry c) else (idle, c))"
| "transition (idle, c) (CONTENT_UPDATED txt) = (idle, c\<lparr>content := txt\<rparr>)"
| "transition (loading, c) (AI_RESPONSE txt) =
     (idle, c\<lparr>content := content c @ '' '' @ txt, isLoading := False\<rparr>)"
| "transition (loading, c) (ERROR message) =
     (idle, c\<lparr>error := Some message, isLoading := False\<rparr>)"
| "transition (loading, c) (CONTENT_UPDATED txt) = (loading, c\<lparr>content := txt\<rparr>)"
| "transition (s, c) RESET = (idle, c\<lparr>content := [], isLoading := False, error := None\<rparr>)"
| "transition (s, c) e = (s, c)"

text \<open>The configuration after a sequence of events sent to a fresh machine.\<close>

definition run :: "EditorEvent list \<Rightarrow> EditorState \<times> EditorContext" where
  "run evs = foldl transition initial evs"

text \<open>The invariant of the reachable configurations.\<close>

definition machine_inv :: "EditorState \<times> EditorContext \<Rightarrow> bool" where
  "machine_inv cfg \<longleftrightarrow>
     (isLoading (snd cfg) \<longleftrightarrow> fst cfg = loading) \<and>
     (fst cfg = loading \<longrightarrow> error (snd cfg) = None)"

section \<open>The retry utility (services/aiService, retryWithBackoff)\<close>

text \<open>
  What a \<^verbatim>\<open>throw\<close> carries: an \<^verbatim>\<open>Error\<close> object with its message, or some other value.
  An awaited promise settles with a value or with a thrown one.
\<close>

datatype thrown = Error (message: string) | NonError

datatype 'a settled = Resolved 'a | Rejected thrown

text \<open>\<^verbatim>\<open>e instanceof Error ? e : new Error(dflt)\<close>, as the message of the resulting error.\<close>

definition asError :: "string \<Rightarrow> thrown \<Rightarrow> string" where
  "asError dflt e = (case e of Error m \<Rightarrow> m | NonError \<Rightarrow> dflt)"

definition isRetryable :: "string \<Rightarrow> bool" where
  "isRetryable m \<longleftrightarrow>
     (includes_str m ''503'' \<or> includes_str m ''overloaded'' \<or> includes_str m ''429'' \<or>
      includes_str m ''quota'' \<or> includes_str m ''network'' \<or> includes_str m ''ECONNRESET'' \<or>
      includes_str m ''ETIMEDOUT'') \<and>
     \<not> includes_str m ''404'' \<and> \<not> includes_str m ''not found''"

text \<open>
  What the utility itself does, in order: an invocation of \<open>fn\<close>, or a timer wait of the
  given number of milliseconds.
\<close>

datatype retry_event = Invoke | Wait int

text \<open>
  The operation \<open>fn\<close> is a function of a state of its own, so that successive invocations
  may behave differently. The loop carries \<^verbatim>\<open>attempt\<close>, \<^verbatim>\<open>lastError\<close> and the events so
  far; it returns the rejection message (\<open>Inl\<close>) or the value (\<open>Inr\<close>).
\<close>

function retryLoop ::
  "('s \<Rightarrow> 'a settled \<times> 's) \<Rightarrow> int \<Rightarrow> int \<Rightarrow> int \<Rightarrow> string option \<Rightarrow> retry_event list \<Rightarrow> 's
     \<Rightarrow> (string + 'a) \<times> retry_event list \<times> 's" where
  "retryLoop fn maxRetries initialDelay attempt lastError evs s =
     (if attempt < maxRetries then
        (case fn s of
           (Resolved v, s') \<Rightarrow> (Inr v, evs @ [Invoke], s')
         | (Rejected e, s') \<Rightarrow>
             (let m = asError ''Unknown error'' e in
              if \<not> isRetryable m \<or> attempt = maxRetries - 1 then (Inl m, evs @ [Invoke], s')
              else retryLoop fn maxRetries initialDelay (attempt + 1) (Some m)
                     (evs @ [Invoke, Wait (initialDelay * 2 ^ nat attempt)]) s'))
      else (Inl (case lastError of Some m \<Rightarrow> m | None \<Rightarrow> ''Max retries exceeded''), evs, s))"
  by pat_completeness auto
termination
  by (relation "measure (\<lambda>(fn, maxRetries, initialDelay, attempt, lastError, evs, s).
        nat (maxRetries - attempt))") auto

declare retryLoop.simps [simp del]

definition retryWithBackoff ::
  "('s \<Rightarrow> 'a settled \<times> 's) \<Rightarrow> int \<Rightarrow> int \<Rightarrow> 's \<Rightarrow> (string + 'a) \<times> retry_event list \<times> 's" where
  "retryWithBackoff fn maxRetries initialDelay s =
     retryLoop fn maxRetries initialDelay 0 None [] s"





section \<open>The AI continuation client (services/aiService, continueWriting)\<close>

record AIContinuationRequest =
  request_text :: string

record AIContinuationResponse =
  continuation :: string

text \<open>
  The shapes the code reads from a generation response: the accessor \<^verbatim>\<open>text()\<close>, which
  returns a string or throws (\<open>None\<close>), and the optional list of candidates, each with
  an optional content, whose optional parts each have an optional text.
\<close>

datatype Part = Part (part_text: "string option")

datatype Content = Content (parts: "Part list option")

datatype Candidate = Candidate (candidate_content: "Content option")

record GenerateContentResponse =
  response_text :: "string option"
  candidates :: "Candidate list option"

text \<open>
  The provider is a parameter: \<open>gen model prompt\<close> is one generation call
  (\<^verbatim>\<open>getGenerativeModel\<close> followed by \<^verbatim>\<open>generateContent\<close>) acting on the provider's state.
  The declared type of its result always holds a response, so the test
  \<^verbatim>\<open>result && result.response\<close> succeeds whenever the call returns. The client's
  side records every call issued, by model identifier.
\<close>

type_synonym 'w provider = "string \<Rightarrow> string \<Rightarrow> 'w \<Rightarrow> GenerateContentResponse settled \<times> 'w"

record 'w net =
  world :: 'w
  requests :: "string list"

definition generateContent ::
  "'w provider \<Rightarrow> string \<Rightarrow> string \<Rightarrow> 'w net \<Rightarrow> GenerateContentResponse settled \<times> 'w net" where
  "generateContent gen modelName prompt n =
     (case gen modelName prompt (world n) of
        (r, w') \<Rightarrow> (r, \<lparr>world = w', requests = requests n @ [modelName]\<rparr>))"

definition modelsToTry :: "string list" where
  "modelsToTry =
     [''gemini-2.5-flash'', ''gemini-2.5-pro'', ''gemini-1.5-flash'', ''gemini-1.5-pro'',
      ''gemini-pro'']"

definition isNotFound :: "string \<Rightarrow> bool" where
  "isNotFound m \<longleftrightarrow> includes_str m ''404'' \<or> includes_str m ''not found''"

text \<open>
  The loop over the fallback list, carrying \<^verbatim>\<open>lastModelError\<close>. It ends with \<open>Inl\<close> at a
  \<^verbatim>\<open>throw\<close>, and otherwise with the variables \<^verbatim>\<open>result\<close> and \<^verbatim>\<open>lastModelError\<close>.
\<close>

fun tryModels ::
  "'w provider \<Rightarrow> string \<Rightarrow> string list \<Rightarrow> string option \<Rightarrow> 'w net
     \<Rightarrow> (thrown + GenerateContentResponse option \<times> string option) \<times> 'w net" where
  "tryModels gen prompt [] lastModelError n = (Inr (None, lastModelError), n)"
| "tryModels gen prompt (modelName # rest) lastModelError n =
     (case generateContent gen modelName prompt n of
        (Resolved r, n') \<Rightarrow> (Inr (Some r, lastModelError), n')
      | (Rejected e, n') \<Rightarrow>
          (let m = asError ''Unknown model error'' e in
           if isNotFound m then tryModels gen prompt rest (Some m) n'
           else (Inl (Error m), n')))"

text \<open>\<^verbatim>\<open>parts.map(part => part.text || '').join('').trim()\<close>\<close>

definition partsText :: "Part list \<Rightarrow> string" where
  "partsText ps = trim (concat (map (\<lambda>p. case part_text p of Some t \<Rightarrow> t | None \<Rightarrow> []) ps))"

text \<open>\<^verbatim>\<open>!text || !text.trim()\<close>\<close>

definition blank :: "string \<Rightarrow> bool" where
  "blank t \<longleftrightarrow> t = [] \<or> trim t = []"

text \<open>
  The extraction chain. The first step is \<^verbatim>\<open>response.text()\<close>, and on its failure the
  first candidate's parts when there is at least one part; the second step, taken when
  the text is still blank, reads the first candidate's parts again from
  \<^verbatim>\<open>result.response\<close>, which is the same response object.
\<close>

definition firstText :: "GenerateContentResponse \<Rightarrow> string" where
  "firstText r =
     (case response_text r of
        Some t \<Rightarrow> t
      | None \<Rightarrow>
          (case candidates r of
             Some (c # cs) \<Rightarrow>
               (case candidate_content c of
                  Some (Content (Some (p # ps))) \<Rightarrow> partsText (p # ps)
                | _ \<Rightarrow> [])
           | _ \<Rightarrow> []))"

definition secondText :: "GenerateContentResponse \<Rightarrow> string \<Rightarrow> string" where
  "secondText r t =
     (if blank t then
        (case candidates r of
           Some (c # cs) \<Rightarrow>
             (case candidate_content c of
                Some (Content (Some ps)) \<Rightarrow> partsText ps
              | _ \<Rightarrow> t)
         | _ \<Rightarrow> t)
      else t)"

definition extractText :: "GenerateContentResponse \<Rightarrow> thrown + AIContinuationResponse" where
  "extractText r =
     (let t = secondText r (firstText r) in
      if blank t
      then Inl (Error ''Empty response from API. The model did not generate any content.'')
      else Inr \<lparr>continuation = trim t\<rparr>)"

text \<open>The outer \<^verbatim>\<open>catch\<close>: every failure of an attempt is rethrown under one of these messages.\<close>

definition friendlyError :: "thrown \<Rightarrow> string" where
  "friendlyError e =
     (case e of
        Error m \<Rightarrow>
          if includes_str m ''API_KEY'' \<or> includes_str m ''401''
            then ''Invalid Gemini API key. Please check your VITE_GEMINI_API_KEY.''
          else if includes_str m ''quota'' \<or> includes_str m ''429''
            then ''API quota exceeded. Please try again later.''
          else if includes_str m ''503'' \<or> includes_str m ''overloaded''
            then ''The AI model is currently overloaded. Please try again in a moment.''
          else if includes_str m ''404'' \<or> includes_str m ''not found''
            then ''The requested AI model is not available. Please check your API configuration.''
          else ''Failed to generate paragraph: '' @ m
      | NonError \<Rightarrow> ''Failed to generate paragraph. Please try again.'')"

text \<open>The body of the \<^verbatim>\<open>try\<close> block: the fallback loop, then the extraction.\<close>

definition generateParagraph ::
  "'w provider \<Rightarrow> string \<Rightarrow> 'w net \<Rightarrow> (thrown + AIContinuationResponse) \<times> 'w net" where
  "generateParagraph gen prompt n =
     (case tryModels gen prompt modelsToTry None n of
        (Inl e, n') \<Rightarrow> (Inl e, n')
      | (Inr (None, lastModelError), n') \<Rightarrow>
          (Inl (Error (''No available models found. Last error: '' @
             (case lastModelError of
                None \<Rightarrow> ''Unknown error''
              | Some m \<Rightarrow> if m = [] then ''Unknown error'' else m))), n')
      | (Inr (Some r, lastModelError), n') \<Rightarrow> (extractText r, n'))"

text \<open>The operation handed to the retry utility: the \<^verbatim>\<open>try\<close> block under its \<^verbatim>\<open>catch\<close>.\<close>

definition attemptOnce ::
  "'w provider \<Rightarrow> string \<Rightarrow> 'w net \<Rightarrow> AIContinuationResponse settled \<times> 'w net" where
  "attemptOnce gen prompt n =
     (case generateParagraph gen prompt n of
        (Inl e, n') \<Rightarrow> (Rejected (Error (friendlyError e)), n')
      | (Inr resp, n') \<Rightarrow> (Resolved resp, n'))"

definition newline :: char where
  "newline = CHR 0x0A"

definition buildPrompt :: "string \<Rightarrow> string" where
  "buildPrompt userText =
     ''Write a complete, well-formed paragraph based on the following text or topic.'' @
     [newline, newline] @
     ''Write a full paragraph with 4-6 sentences that is coherent, engaging, and well-structured.'' @
     [newline] @
     ''If the input is a topic or idea, develop it into a complete paragraph.'' @
     [newline] @
     ''If the input is a partial thought, complete and expand it into a full paragraph.'' @
     [newline, newline] @
     ''User's text/topic:'' @ [newline] @ userText @ [newline, newline] @
     ''Generate a complete paragraph:''"

text \<open>
  \<open>apiKey\<close> is the value of the environment variable, \<open>None\<close> when it is not set; an
  empty string is falsy as well.
\<close>

definition continueWriting ::
  "'w provider \<Rightarrow> string option \<Rightarrow> AIContinuationRequest \<Rightarrow> 'w net
     \<Rightarrow> (string + AIContinuationResponse) \<times> retry_event list \<times> 'w net" where
  "continueWriting gen apiKey request n =
     (if apiKey = None \<or> apiKey = Some [] then
        (Inl ''Gemini API key is not configured. Please set VITE_GEMINI_API_KEY in your .env file.'',
         [], n)
      else
        (let userText = trim (request_text request) in
         if userText = [] then (Inl ''No text provided.'', [], n)
         else retryWithBackoff (attemptOnce gen (buildPrompt userText)) 3 1000 n))"

text \<open>A provider for examples: the third model of the list answers, the fourth refuses the
  credential, and every other model is not found.\<close>

definition example_response :: GenerateContentResponse where
  "example_response = \<lparr>response_text = Some '' A paragraph. '', candidates = None\<rparr>"

definition example_provider :: "nat provider" where
  "example_provider modelName prompt w =
     (if modelName = ''gemini-1.5-flash'' then (Resolved example_response, Suc w)
      else if modelName = ''gemini-1.5-pro'' then (Rejected (Error ''401 unauthorized''), Suc w)
      else (Rejected (Error ''[404] model not found''), Suc w))"

text \<open>
  The specification's wording of the extraction, for comparison with \<open>extractText\<close>: the parts
  of the first candidate, and "every extraction path yields only empty or whitespace-only
  text" (a path that yields nothing at all counts as such).
\<close>

definition candidateParts :: "GenerateContentResponse \<Rightarrow> Part list option" where
  "candidateParts r =
     (case candidates r of
        Some (c # cs) \<Rightarrow> (case candidate_content c of Some (Content ps) \<Rightarrow> ps | None \<Rightarrow> None)
      | _ \<Rightarrow> None)"

definition allPathsBlank :: "GenerateContentResponse \<Rightarrow> bool" where
  "allPathsBlank r \<longleftrightarrow>
     (case response_text r of Some t \<Rightarrow> blank t | None \<Rightarrow> True) \<and>
     (case candidateParts r of Some ps \<Rightarrow> blank (partsText ps) | None \<Rightarrow> True)"

text \<open>A response for examples whose accessor throws and whose parts hold a single space,
  and a provider that always answers with it.\<close>

definition blank_response :: GenerateContentResponse where
  "blank_response =
     \<lparr>response_text = None,
      candidates = Some [Candidate (Some (Content (Some [Part (Some '' ''), Part None])))]\<rparr>"

definition blank_provider :: "nat provider" where
  "blank_provider modelName prompt w = (Resolved blank_response, Suc w)"

section \<open>The streaming animator (components/ProseMirrorEditor, streamContent)\<close>

text \<open>
  The document engine is an external library. The model keeps what the code reads and
  changes through it: \<open>viewRef\<close> is \<^verbatim>\<open>viewRef.current\<close>, \<open>None\<close> when there is no view
  (before mounting, and after the cleanup that destroys it) and otherwise the text
  content of the view's document; inserting text at the end of the document appends to
  that text content. \<open>timers\<close> are the waits the animator has made so far, and
  \<open>completions\<close> counts the calls of \<^verbatim>\<open>onComplete\<close>. The indicator that follows the
  cursor is styling only and is left out.
\<close>

record editor =
  viewRef :: "string option"
  timers :: "nat list"
  completions :: nat

text \<open>
  Other tasks run while the animator waits on a timer: the user types, the component is
  unmounted. \<open>env k\<close> is what they do to \<^verbatim>\<open>viewRef.current\<close> during the wait number \<open>k\<close>.
\<close>

type_synonym environment = "nat \<Rightarrow> string option \<Rightarrow> string option"

definition sleep :: "environment \<Rightarrow> nat \<Rightarrow> editor \<Rightarrow> editor" where
  "sleep env d e = e\<lparr>viewRef := env (length (timers e)) (viewRef e), timers := timers e @ [d]\<rparr>"

definition quiet :: environment where
  "quiet k v = v"

definition isPunctuation :: "char \<Rightarrow> bool" where
  "isPunctuation c \<longleftrightarrow> c \<in> set ''.,!?;:''"

definition isLetter :: "char \<Rightarrow> bool" where
  "isLetter c \<longleftrightarrow>
     (97 \<le> (of_char c :: nat) \<and> (of_char c :: nat) \<le> 122) \<or>
     (65 \<le> (of_char c :: nat) \<and> (of_char c :: nat) \<le> 90)"

definition charDelay :: "char \<Rightarrow> nat" where
  "charDelay c =
     (if isWhiteSpace c then 15
      else if isPunctuation c then 60
      else if isLetter c then 40
      else 30)"

text \<open>The loop that moves leading newlines from \<^verbatim>\<open>textToStream\<close> to \<^verbatim>\<open>leadingNewlines\<close>.\<close>

fun stripNewlines :: "string \<Rightarrow> string \<Rightarrow> string \<times> string" where
  "stripNewlines leadingNewlines [] = (leadingNewlines, [])"
| "stripNewlines leadingNewlines (c # cs) =
     (if c = newline then stripNewlines (leadingNewlines @ [newline]) cs
      else (leadingNewlines, c # cs))"

text \<open>
  \<^verbatim>\<open>lastChar && !lastChar.match(/\s/)\<close>, on the last code unit of the document's text,
  which is \<^verbatim>\<open>undefined\<close> for the empty text.
\<close>

definition needsSpace :: "string \<Rightarrow> bool" where
  "needsSpace doc \<longleftrightarrow> doc \<noteq> [] \<and> \<not> isWhiteSpace (last doc)"

text \<open>The loop over the characters, with its test of \<^verbatim>\<open>viewRef.current\<close> and its \<^verbatim>\<open>break\<close>.\<close>

fun streamLoop :: "environment \<Rightarrow> string \<Rightarrow> editor \<Rightarrow> editor" where
  "streamLoop env [] e = e"
| "streamLoop env (c # cs) e =
     (case viewRef e of
        None \<Rightarrow> e
      | Some doc \<Rightarrow> streamLoop env cs (sleep env (charDelay c) (e\<lparr>viewRef := Some (doc @ [c])\<rparr>)))"

text \<open>\<open>onComplete\<close> tells whether the caller passed a callback.\<close>

definition streamContent :: "string \<Rightarrow> bool \<Rightarrow> environment \<Rightarrow> editor \<Rightarrow> editor" where
  "streamContent str onComplete env e =
     (case viewRef e of
        None \<Rightarrow> e
      | Some doc \<Rightarrow>
          (case stripNewlines [] str of
             (leadingNewlines, rest) \<Rightarrow>
               (let textToStream =
                      (if leadingNewlines = [] \<and> needsSpace doc then '' '' @ rest else rest);
                    e1 = (if leadingNewlines \<noteq> []
                          then sleep env 30 (e\<lparr>viewRef := Some (doc @ leadingNewlines)\<rparr>)
                          else e);
                    e2 = streamLoop env textToStream e1
                in if onComplete then e2\<lparr>completions := completions e2 + 1\<rparr> else e2)))"

text \<open>An environment for examples: the view is destroyed during the wait number \<open>j\<close>.\<close>

definition unmount_during :: "nat \<Rightarrow> environment" where
  "unmount_during j k v = (if k = j then None else v)"

section \<open>The toolbar state (components/FormattingToolbar, updateToolbar)\<close>

text \<open>
  A mark has the name of its type and, for a font size, the attribute \<^verbatim>\<open>size\<close>. Each
  mark type of the schema has its own name, so two marks are of the same type when the
  names agree.
\<close>

record Mark =
  type_name :: string
  attrs_size :: "string option"

record Node =
  marks :: "Mark list"

text \<open>
  What \<^verbatim>\<open>updateToolbar\<close> reads from the editor state through the document engine:
  whether the selection is empty, the stored marks (\<open>None\<close> for \<^verbatim>\<open>null\<close>), the marks at
  the cursor, the marks at the start of the selection, and the nodes that
  \<^verbatim>\<open>nodesBetween\<close> passes to its callback for the selected range, in order.
\<close>

record view_state =
  selection_empty :: bool
  storedMarks :: "Mark list option"
  cursorMarks :: "Mark list"
  marksAtStart :: "Mark list"
  nodesBetween :: "Node list"

record toolbar =
  activeMarks :: "string list"
  fontSize :: string

text \<open>\<^verbatim>\<open>mark.attrs.size || '16px'\<close>\<close>

definition sizeOrDefault :: "Mark \<Rightarrow> string" where
  "sizeOrDefault m = (case attrs_size m of None \<Rightarrow> ''16px'' | Some sz \<Rightarrow> if sz = [] then ''16px'' else sz)"

text \<open>The loop over the marks at a collapsed cursor; \<open>List.insert\<close> is \<^verbatim>\<open>Set.add\<close>.\<close>

fun cursorLoop :: "Mark list \<Rightarrow> toolbar \<Rightarrow> toolbar" where
  "cursorLoop [] t = t"
| "cursorLoop (mark # rest) t =
     cursorLoop rest
       (t\<lparr>activeMarks := activeMarks t @ (if type_name mark \<in> set (activeMarks t) then [] else [type_name mark]),
          fontSize := (if type_name mark = ''fontSize'' then sizeOrDefault mark else fontSize t)\<rparr>)"

definition nodeHasMark :: "Node \<Rightarrow> Mark \<Rightarrow> bool" where
  "nodeHasMark node mark \<longleftrightarrow> list_ex (\<lambda>m. type_name m = type_name mark) (marks node)"

text \<open>
  The callback of \<^verbatim>\<open>nodesBetween\<close> for one mark, over the nodes in turn. The state is
  \<^verbatim>\<open>markExistsEverywhere\<close>, \<^verbatim>\<open>currentFontSize\<close> and \<^verbatim>\<open>foundFontSize\<close>.
\<close>

fun scanNodes :: "Mark \<Rightarrow> Node list \<Rightarrow> bool \<times> string \<times> bool \<Rightarrow> bool \<times> string \<times> bool" where
  "scanNodes mark [] st = st"
| "scanNodes mark (node # rest) (markExistsEverywhere, currentFontSize, foundFontSize) =
     scanNodes mark rest
       (if nodeHasMark node mark then markExistsEverywhere else False,
        (if type_name mark = ''fontSize'' \<and> \<not> foundFontSize \<and> nodeHasMark node mark
         then (case find (\<lambda>m. type_name m = ''fontSize'') (marks node) of
                 Some fontSizeMark \<Rightarrow> (sizeOrDefault fontSizeMark, True)
               | None \<Rightarrow> (currentFontSize, foundFontSize))
         else (currentFontSize, foundFontSize)))"

text \<open>The loop over the marks at the start of a range selection.\<close>

fun rangeLoop :: "Mark list \<Rightarrow> Node list \<Rightarrow> toolbar \<times> bool \<Rightarrow> toolbar \<times> bool" where
  "rangeLoop [] nodes st = st"
| "rangeLoop (mark # rest) nodes (t, foundFontSize) =
     (case scanNodes mark nodes (True, fontSize t, foundFontSize) of
        (markExistsEverywhere, currentFontSize, foundFontSize') \<Rightarrow>
          rangeLoop rest nodes
            (t\<lparr>activeMarks := activeMarks t @
                  (if markExistsEverywhere \<and> type_name mark \<notin> set (activeMarks t)
                   then [type_name mark] else []),
               fontSize := currentFontSize\<rparr>,
             foundFontSize'))"

definition updateToolbar :: "view_state \<Rightarrow> toolbar" where
  "updateToolbar v =
     (let t0 = \<lparr>activeMarks = [], fontSize = ''16px''\<rparr> in
      if selection_empty v
      then cursorLoop (case storedMarks v of Some ms \<Rightarrow> ms | None \<Rightarrow> cursorMarks v) t0
      else fst (rangeLoop (marksAtStart v) (nodesBetween v) (t0, False)))"

text \<open>
  The traversal itself belongs to the document engine. Its documents are trees: a text
  node holds a number of characters, any other node holds its children, and every node
  has a set of marks, which is empty for a block such as a paragraph. A text node has the
  size of its text and no content; a node with children has the size of its content plus
  two, for its opening and closing tokens.
\<close>

datatype doc_node = Text "Mark list" nat | Block "Mark list" "doc_node list"

fun node_marks :: "doc_node \<Rightarrow> Mark list" where
  "node_marks (Text ms k) = ms"
| "node_marks (Block ms cs) = ms"

fun nodeSize :: "doc_node \<Rightarrow> int" where
  "nodeSize (Text ms k) = int k"
| "nodeSize (Block ms cs) = 2 + sum_list (map nodeSize cs)"

fun contentSize :: "doc_node \<Rightarrow> int" where
  "contentSize (Text ms k) = 0"
| "contentSize (Block ms cs) = sum_list (map nodeSize cs)"

text \<open>
  \<^verbatim>\<open>nodesBetween(from, to, f)\<close> on a sequence of children, as the engine does it: with
  \<open>pos\<close> the position of the next child, it goes on while \<open>pos < to\<close>; a child that
  ends after \<open>from\<close> is passed to \<open>f\<close>, and then, \<open>f\<close> not having returned
  \<^verbatim>\<open>false\<close> (the callback of \<^verbatim>\<open>updateToolbar\<close> returns nothing), its own children are
  walked with the range made relative to its content. The result lists the nodes in the
  order in which \<open>f\<close> receives them. A block that encloses the range is thus passed to
  the callback, ahead of the text nodes inside it.
\<close>

fun walkBetween :: "doc_node list \<Rightarrow> int \<Rightarrow> int \<Rightarrow> int \<Rightarrow> Node list" where
  "walkBetween [] pos from to = []"
| "walkBetween (Text ms k # rest) pos from to =
     (if pos < to
      then (if pos + int k > from then [\<lparr>marks = ms\<rparr>] else []) @
           walkBetween rest (pos + int k) from to
      else [])"
| "walkBetween (Block ms cs # rest) pos from to =
     (if pos < to
      then (if pos + nodeSize (Block ms cs) > from
            then \<lparr>marks = ms\<rparr> #
                 (if contentSize (Block ms cs) \<noteq> 0
                  then walkBetween cs 0 (max 0 (from - (pos + 1)))
                         (min (contentSize (Block ms cs)) (to - (pos + 1)))
                  else [])
            else []) @
           walkBetween rest (pos + nodeSize (Block ms cs)) from to
      else [])"

text \<open>
  The state that \<^verbatim>\<open>updateToolbar\<close> reads for a selection from \<open>from\<close> to \<open>to\<close>, with
  \<open>from < to\<close>, in the document with the given top-level nodes; \<open>ms\<close> are the marks
  that the engine resolves at \<open>from\<close>.
\<close>

definition range_selection :: "doc_node list \<Rightarrow> Mark list \<Rightarrow> int \<Rightarrow> int \<Rightarrow> view_state" where
  "range_selection doc ms from to =
     \<lparr>selection_empty = False, storedMarks = None, cursorMarks = [], marksAtStart = ms,
      nodesBetween = walkBetween doc 0 from to\<rparr>"

text \<open>
  For examples: the bold and italic marks, and a document of one paragraph with the two
  text nodes \<open>ab\<close>, bold, and \<open>cd\<close>, bold and italic. The paragraph's content lies
  between the positions 1 and 5, where the marks at position 1 are those of the first
  text node.
\<close>

definition bold :: Mark where
  "bold = \<lparr>type_name = ''strong'', attrs_size = None\<rparr>"

definition italic :: Mark where
  "italic = \<lparr>type_name = ''em'', attrs_size = None\<rparr>"

definition two_bold_units :: "doc_node list" where
  "two_bold_units = [Block [] [Text [bold] 2, Text [italic, bold] 2]]"

section \<open>Properties of the editor state machine\<close>

lemma machine_inv_initial: "machine_inv initial"
  by (simp add: machine_inv_def initial_def)

lemma machine_inv_transition: "machine_inv cfg \<Longrightarrow> machine_inv (transition cfg e)"
proof -
  assume inv: "machine_inv cfg"
  obtain s c where cfg: "cfg = (s, c)" by (cases cfg)
  show ?thesis
    using inv unfolding cfg machine_inv_def
    by (cases s; cases e) (simp_all add: loading_entry_def)
qed

lemma machine_inv_run: "machine_inv (run evs)"
  unfolding run_def
  by (induction evs rule: rev_induct) (simp_all add: machine_inv_initial machine_inv_transition)

lemma transition_RESET:
  "transition cfg RESET = (idle, \<lparr>content = [], isLoading = False, error = None\<rparr>)"
  by (cases cfg; cases "fst cfg") simp_all

text \<open>
  C7. In \<open>idle\<close>, \<open>CONTINUE_WRITING\<close> with a content that is empty after trimming leaves
  the state and the context as they are; \<open>RESET\<close>, in any state and with any context,
  gives \<open>idle\<close> with the content empty, the loading flag off and no error.
\<close>

theorem continue_blank_and_reset:
  "(trim (content c) = [] \<longrightarrow> transition (idle, c) CONTINUE_WRITING = (idle, c)) \<and>
   transition (s, c) RESET = (idle, \<lparr>content = [], isLoading = False, error = None\<rparr>)"
  by (simp add: hasContent_def transition_RESET)

theorem continue_blank_and_reset_witness:
  "trim (content \<lparr>content = [CHR 0x20, CHR 0x0A, CHR 0x09], isLoading = False,
                  error = Some ''old''\<rparr>) = [] \<and>
   transition (idle, \<lparr>content = [CHR 0x20, CHR 0x0A, CHR 0x09], isLoading = False,
                       error = Some ''old''\<rparr>) CONTINUE_WRITING
     = (idle, \<lparr>content = [CHR 0x20, CHR 0x0A, CHR 0x09], isLoading = False,
               error = Some ''old''\<rparr>)"
proof -
  have h: "trim (content \<lparr>content = [CHR 0x20, CHR 0x0A, CHR 0x09], isLoading = False,
                          error = Some ''old''\<rparr>) = []"
    by (simp add: trim_def isWhiteSpace_def)
  show ?thesis
    using h continue_blank_and_reset
      [of "\<lparr>content = [CHR 0x20, CHR 0x0A, CHR 0x09], isLoading = False,
            error = Some ''old''\<rparr>" idle]
    by blast
qed

text \<open>
  C8. In every configuration that a sequence of events reaches from the initial one, the
  loading flag is on exactly when the state is \<open>loading\<close>, and there the error is null.
  Entering \<open>loading\<close> from \<open>idle\<close> sets the flag and leaves the error null,
  \<open>AI_RESPONSE\<close> and \<open>ERROR\<close> in \<open>loading\<close> clear the flag, and after \<open>RESET\<close> the
  error is null.
\<close>

theorem loading_flag_invariant:
  "(isLoading (snd (run evs)) \<longleftrightarrow> fst (run evs) = loading) \<and>
   (fst (run evs) = loading \<longrightarrow> error (snd (run evs)) = None) \<and>
   (fst (run evs) = idle \<and> fst (transition (run evs) CONTINUE_WRITING) = loading \<longrightarrow>
      isLoading (snd (transition (run evs) CONTINUE_WRITING)) \<and>
      error (snd (transition (run evs) CONTINUE_WRITING)) = None) \<and>
   (fst (run evs) = loading \<longrightarrow>
      \<not> isLoading (snd (transition (run evs) (AI_RESPONSE txt))) \<and>
      \<not> isLoading (snd (transition (run evs) (ERROR msg)))) \<and>
   error (snd (transition (run evs) RESET)) = None"
proof -
  obtain s c where cfg: "run evs = (s, c)" by (cases "run evs")
  have inv: "machine_inv (s, c)" using machine_inv_run [of evs] by (simp add: cfg)
  have a: "isLoading c \<longleftrightarrow> s = loading" using inv by (simp add: machine_inv_def)
  have b: "s = loading \<longrightarrow> error c = None" using inv by (simp add: machine_inv_def)
  have c: "s = idle \<and> fst (transition (s, c) CONTINUE_WRITING) = loading \<longrightarrow>
      isLoading (snd (transition (s, c) CONTINUE_WRITING)) \<and>
      error (snd (transition (s, c) CONTINUE_WRITING)) = None"
    by (auto simp: loading_entry_def split: if_splits)
  have d: "s = loading \<longrightarrow>
      \<not> isLoading (snd (transition (s, c) (AI_RESPONSE txt))) \<and>
      \<not> isLoading (snd (transition (s, c) (ERROR msg)))"
    by simp
  have e: "error (snd (transition (s, c) RESET)) = None"
    by (simp add: transition_RESET)
  show ?thesis unfolding cfg using a b c d e by simp
qed

theorem loading_flag_invariant_witness:
  "fst (run [CONTENT_UPDATED ''hi'', CONTINUE_WRITING]) = loading \<and>
   isLoading (snd (run [CONTENT_UPDATED ''hi'', CONTINUE_WRITING])) \<and>
   error (snd (run [CONTENT_UPDATED ''hi'', CONTINUE_WRITING])) = None \<and>
   \<not> isLoading (snd (transition (run [CONTENT_UPDATED ''hi'', CONTINUE_WRITING]) (ERROR ''x''))) \<and>
   fst (run [CONTENT_UPDATED ''hi'']) = idle \<and>
   fst (transition (run [CONTENT_UPDATED ''hi'']) CONTINUE_WRITING) = loading \<and>
   error (snd (transition (run [CONTENT_UPDATED ''hi'']) CONTINUE_WRITING)) = None"
proof -
  have l: "fst (run [CONTENT_UPDATED ''hi'', CONTINUE_WRITING]) = loading"
    by (simp add: run_def initial_def hasContent_def trim_def isWhiteSpace_def)
  have i: "fst (run [CONTENT_UPDATED ''hi'']) = idle \<and>
     fst (transition (run [CONTENT_UPDATED ''hi'']) CONTINUE_WRITING) = loading"
    by (simp add: run_def initial_def hasContent_def trim_def isWhiteSpace_def)
  show ?thesis
    using l i
      loading_flag_invariant [of "[CONTENT_UPDATED ''hi'', CONTINUE_WRITING]" "''y''" "''x''"]
      loading_flag_invariant [of "[CONTENT_UPDATED ''hi'']" "''y''" "''x''"]
    by blast
qed

text \<open>
  C10. In \<open>idle\<close> and in \<open>loading\<close>, \<open>CONTENT_UPDATED\<close> keeps the state, sets the content
  to the event's text and leaves the loading flag and the error as they were.
\<close>

theorem content_updated_frame:
  "transition (s, c) (CONTENT_UPDATED txt) = (s, c\<lparr>content := txt\<rparr>) \<and>
   fst (transition (s, c) (CONTENT_UPDATED txt)) = s \<and>
   content (snd (transition (s, c) (CONTENT_UPDATED txt))) = txt \<and>
   isLoading (snd (transition (s, c) (CONTENT_UPDATED txt))) = isLoading c \<and>
   error (snd (transition (s, c) (CONTENT_UPDATED txt))) = error c"
  by (cases s) simp_all

section \<open>Properties of the retry utility\<close>

lemma retry_resolved_first:
  "fn sa = (Resolved v, sb) \<Longrightarrow> retryWithBackoff fn 3 d sa = (Inr v, [Invoke], sb)"
  by (simp add: retryWithBackoff_def retryLoop.simps [of _ 3 _ 0])

lemma retry_fatal_first:
  "fn sa = (Rejected ea, sb) \<Longrightarrow> \<not> isRetryable (asError ''Unknown error'' ea) \<Longrightarrow>
   retryWithBackoff fn 3 d sa = (Inl (asError ''Unknown error'' ea), [Invoke], sb)"
  by (simp add: retryWithBackoff_def retryLoop.simps [of _ 3 _ 0])








section \<open>Properties of the continuation client\<close>

lemma tryModels_not_found:
  "gen m p (world n) = (Rejected e, w') \<Longrightarrow> isNotFound (asError ''Unknown model error'' e) \<Longrightarrow>
   tryModels gen p (m # rest) l n =
     tryModels gen p rest (Some (asError ''Unknown model error'' e))
       \<lparr>world = w', requests = requests n @ [m]\<rparr>"
  by (simp add: generateContent_def)

lemma tryModels_other:
  "gen m p (world n) = (Rejected e, w') \<Longrightarrow> \<not> isNotFound (asError ''Unknown model error'' e) \<Longrightarrow>
   tryModels gen p (m # rest) l n =
     (Inl (Error (asError ''Unknown model error'' e)), \<lparr>world = w', requests = requests n @ [m]\<rparr>)"
  by (simp add: generateContent_def)

lemma tryModels_accept:
  "gen m p (world n) = (Resolved r, w') \<Longrightarrow>
   tryModels gen p (m # rest) l n = (Inr (Some r, l), \<lparr>world = w', requests = requests n @ [m]\<rparr>)"
  by (simp add: generateContent_def)

lemma tryModels_third:
  assumes "gen ''gemini-2.5-flash'' p (world n) = (Rejected ea, wa)"
    and "isNotFound (asError ''Unknown model error'' ea)"
    and "gen ''gemini-2.5-pro'' p wa = (Rejected eb, wb)"
    and "isNotFound (asError ''Unknown model error'' eb)"
    and "gen ''gemini-1.5-flash'' p wb = (Resolved r, wc)"
  shows "tryModels gen p modelsToTry None n =
     (Inr (Some r, Some (asError ''Unknown model error'' eb)),
      \<lparr>world = wc,
         requests = requests n @ [''gemini-2.5-flash'', ''gemini-2.5-pro'', ''gemini-1.5-flash'']\<rparr>)"
  using assms by (simp add: modelsToTry_def generateContent_def)

lemma continueWriting_retry:
  "apiKey = Some k \<Longrightarrow> k \<noteq> [] \<Longrightarrow> trim (request_text request) \<noteq> [] \<Longrightarrow>
   continueWriting gen apiKey request n =
     retryWithBackoff (attemptOnce gen (buildPrompt (trim (request_text request)))) 3 1000 n"
  by (simp add: continueWriting_def)

text \<open>
  C2. In the loop over the fallback list: when the call for a model fails with a message
  that has the not-found signature, the loop goes on with the rest of the list; when it
  fails with any other message, the loop ends there with that error and the later models
  receive no call; when it returns a response, the response is accepted and the later
  models receive no call. With a credential and a text, if the calls for the first two
  models of the list fail with not-found and the third returns a response from which a
  text is extracted, \<open>continueWriting\<close> returns that text after one invocation of the
  retried operation and three calls, one to each of the first three models.
\<close>

theorem model_fallback:
  "(gen m p (world n) = (Rejected e, w') \<and> isNotFound (asError ''Unknown model error'' e) \<longrightarrow>
      tryModels gen p (m # rest) l n =
        tryModels gen p rest (Some (asError ''Unknown model error'' e))
          \<lparr>world = w', requests = requests n @ [m]\<rparr>) \<and>
   (gen m p (world n) = (Rejected e, w') \<and> \<not> isNotFound (asError ''Unknown model error'' e) \<longrightarrow>
      tryModels gen p (m # rest) l n =
        (Inl (Error (asError ''Unknown model error'' e)),
         \<lparr>world = w', requests = requests n @ [m]\<rparr>)) \<and>
   (gen m p (world n) = (Resolved r, w') \<longrightarrow>
      tryModels gen p (m # rest) l n =
        (Inr (Some r, l), \<lparr>world = w', requests = requests n @ [m]\<rparr>)) \<and>
   (apiKey = Some k \<and> k \<noteq> [] \<and> trim (request_text request) \<noteq> [] \<and>
    p = buildPrompt (trim (request_text request)) \<and>
    gen ''gemini-2.5-flash'' p (world n) = (Rejected ea, wa) \<and>
    isNotFound (asError ''Unknown model error'' ea) \<and>
    gen ''gemini-2.5-pro'' p wa = (Rejected eb, wb) \<and>
    isNotFound (asError ''Unknown model error'' eb) \<and>
    gen ''gemini-1.5-flash'' p wb = (Resolved r, wc) \<and>
    extractText r = Inr resp \<longrightarrow>
      continueWriting gen apiKey request n =
        (Inr resp, [Invoke],
         \<lparr>world = wc,
            requests = requests n @ [''gemini-2.5-flash'', ''gemini-2.5-pro'', ''gemini-1.5-flash'']\<rparr>))"
proof -
  have d: "continueWriting gen apiKey request n =
        (Inr resp, [Invoke],
         \<lparr>world = wc,
            requests = requests n @ [''gemini-2.5-flash'', ''gemini-2.5-pro'', ''gemini-1.5-flash'']\<rparr>)"
    if k: "apiKey = Some k" "k \<noteq> []" "trim (request_text request) \<noteq> []"
      and p: "p = buildPrompt (trim (request_text request))"
      and g: "gen ''gemini-2.5-flash'' p (world n) = (Rejected ea, wa)"
        "isNotFound (asError ''Unknown model error'' ea)"
        "gen ''gemini-2.5-pro'' p wa = (Rejected eb, wb)"
        "isNotFound (asError ''Unknown model error'' eb)"
        "gen ''gemini-1.5-flash'' p wb = (Resolved r, wc)"
      and x: "extractText r = Inr resp"
  proof -
    let ?n' = "\<lparr>world = wc,
      requests = requests n @ [''gemini-2.5-flash'', ''gemini-2.5-pro'', ''gemini-1.5-flash'']\<rparr>"
    have "attemptOnce gen p n = (Resolved resp, ?n')"
      using tryModels_third [where gen = gen and p = p and n = n, OF g] x by (simp add: attemptOnce_def generateParagraph_def)
    then have "retryWithBackoff (attemptOnce gen p) 3 1000 n = (Inr resp, [Invoke], ?n')"
      using retry_resolved_first [where fn = "attemptOnce gen p" and sa = n] by simp
    then show ?thesis using k p by (simp add: continueWriting_retry)
  qed
  show ?thesis
    using tryModels_not_found [of gen m p n e w' rest l] tryModels_other [of gen m p n e w' rest l]
      tryModels_accept [of gen m p n r w' rest l] d
    by blast
qed


theorem model_fallback_witness:
  "isNotFound ''[404] model not found'' \<and> \<not> isNotFound ''401 unauthorized'' \<and>
   trim ''The sea'' \<noteq> [] \<and>
   extractText example_response = Inr \<lparr>continuation = ''A paragraph.''\<rparr> \<and>
   continueWriting example_provider (Some ''key'') \<lparr>request_text = ''The sea''\<rparr>
       \<lparr>world = 0, requests = []\<rparr> =
     (Inr \<lparr>continuation = ''A paragraph.''\<rparr>, [Invoke],
      \<lparr>world = 3, requests = [''gemini-2.5-flash'', ''gemini-2.5-pro'', ''gemini-1.5-flash'']\<rparr>) \<and>
   tryModels example_provider ''p'' [''gemini-pro'', ''gemini-1.5-flash''] None
       \<lparr>world = 0, requests = []\<rparr> =
     tryModels example_provider ''p'' [''gemini-1.5-flash''] (Some ''[404] model not found'')
       \<lparr>world = 1, requests = [''gemini-pro'']\<rparr> \<and>
   tryModels example_provider ''p'' [''gemini-1.5-pro'', ''gemini-pro''] None
       \<lparr>world = 0, requests = []\<rparr> =
     (Inl (Error ''401 unauthorized''), \<lparr>world = 1, requests = [''gemini-1.5-pro'']\<rparr>) \<and>
   tryModels example_provider ''p'' [''gemini-1.5-flash'', ''gemini-1.5-pro''] None
       \<lparr>world = 0, requests = []\<rparr> =
     (Inr (Some example_response, None), \<lparr>world = 1, requests = [''gemini-1.5-flash'']\<rparr>)"
proof -
  let ?n = "\<lparr>world = 0 :: nat, requests = []\<rparr>"
  let ?p = "buildPrompt (trim (request_text \<lparr>request_text = ''The sea''\<rparr>))"
  have nf: "isNotFound ''[404] model not found''" by (simp add: isNotFound_def)
  have au: "\<not> isNotFound ''401 unauthorized''" by (simp add: isNotFound_def)
  have tr: "trim ''The sea'' \<noteq> []" by (simp add: trim_def isWhiteSpace_def)
  have ex: "extractText example_response = Inr \<lparr>continuation = ''A paragraph.''\<rparr>"
    by (simp add: extractText_def secondText_def firstText_def example_response_def blank_def
        trim_def isWhiteSpace_def)
  have g: "example_provider ''gemini-2.5-flash'' q 0 = (Rejected (Error ''[404] model not found''), 1)"
     "example_provider ''gemini-2.5-pro'' q 1 = (Rejected (Error ''[404] model not found''), 2)"
     "example_provider ''gemini-1.5-flash'' q 2 = (Resolved example_response, 3)"
     "example_provider ''gemini-pro'' q 0 = (Rejected (Error ''[404] model not found''), 1)"
     "example_provider ''gemini-1.5-pro'' q 0 = (Rejected (Error ''401 unauthorized''), 1)"
     "example_provider ''gemini-1.5-flash'' q 0 = (Resolved example_response, 1)" for q
    by (simp_all add: example_provider_def)
  show ?thesis
    using nf au tr ex g
      model_fallback [where gen = example_provider and apiKey = "Some ''key''" and k = "''key''"
        and request = "\<lparr>request_text = ''The sea''\<rparr>" and p = ?p and n = ?n
        and ea = "Error ''[404] model not found''" and wa = 1
        and eb = "Error ''[404] model not found''" and wb = 2
        and r = example_response and wc = 3
        and resp = "\<lparr>continuation = ''A paragraph.''\<rparr>"]
      model_fallback [where gen = example_provider and m = "''gemini-pro''" and p = "''p''"
        and n = ?n and e = "Error ''[404] model not found''" and w' = 1
        and rest = "[''gemini-1.5-flash'']" and l = None]
      model_fallback [where gen = example_provider and m = "''gemini-1.5-pro''" and p = "''p''"
        and n = ?n and e = "Error ''401 unauthorized''" and w' = 1
        and rest = "[''gemini-pro'']" and l = None]
      model_fallback [where gen = example_provider and m = "''gemini-1.5-flash''" and p = "''p''"
        and n = ?n and r = example_response and w' = 1
        and rest = "[''gemini-1.5-pro'']" and l = None]
    by (simp add: asError_def)
qed

lemma trim_prefix: "dropWhile isWhiteSpace t = trim t @ rev (takeWhile isWhiteSpace (rev (dropWhile isWhiteSpace t)))"
proof -
  have "rev (dropWhile isWhiteSpace t) =
      takeWhile isWhiteSpace (rev (dropWhile isWhiteSpace t)) @
      dropWhile isWhiteSpace (rev (dropWhile isWhiteSpace t))"
    by simp
  then have "rev (rev (dropWhile isWhiteSpace t)) =
      rev (dropWhile isWhiteSpace (rev (dropWhile isWhiteSpace t))) @
      rev (takeWhile isWhiteSpace (rev (dropWhile isWhiteSpace t)))"
    by (metis rev_append)
  then show ?thesis by (simp add: trim_def)
qed

lemma trim_hd: "trim t \<noteq> [] \<Longrightarrow> \<not> isWhiteSpace (hd (trim t))"
proof -
  assume ne: "trim t \<noteq> []"
  have "hd (dropWhile isWhiteSpace t) = hd (trim t)"
    using ne trim_prefix [of t] by (metis hd_append2)
  moreover have "dropWhile isWhiteSpace t \<noteq> []"
    using ne trim_prefix [of t] by (metis append_is_Nil_conv)
  ultimately show ?thesis using hd_dropWhile [of isWhiteSpace t] by simp
qed

lemma trim_last: "trim t \<noteq> [] \<Longrightarrow> \<not> isWhiteSpace (last (trim t))"
proof -
  assume ne: "trim t \<noteq> []"
  let ?d = "dropWhile isWhiteSpace (rev (dropWhile isWhiteSpace t))"
  have "?d \<noteq> []" using ne by (simp add: trim_def)
  then have "\<not> isWhiteSpace (hd ?d)" by (rule hd_dropWhile)
  moreover have "last (trim t) = hd ?d" using \<open>?d \<noteq> []\<close> by (simp add: trim_def last_rev)
  ultimately show ?thesis by simp
qed

lemma trim_Nil: "trim [] = []"
  by (simp add: trim_def)

lemma trim_trim: "trim (trim t) = trim t"
proof (cases "trim t = []")
  case True
  then show ?thesis by (simp add: trim_Nil)
next
  case False
  have a: "dropWhile isWhiteSpace (trim t) = trim t"
    using False trim_hd [of t] by (simp add: dropWhile_eq_self_iff)
  have "hd (rev (trim t)) = last (trim t)" using False by (simp add: hd_rev)
  then have b: "dropWhile isWhiteSpace (rev (trim t)) = rev (trim t)"
    using False trim_last [of t] by (simp add: dropWhile_eq_self_iff)
  show ?thesis unfolding trim_def [of "trim t"] a b by simp
qed

lemma extractText_blank:
  "allPathsBlank r \<Longrightarrow>
   extractText r = Inl (Error ''Empty response from API. The model did not generate any content.'')"
  by (auto simp: allPathsBlank_def candidateParts_def extractText_def secondText_def firstText_def
      Let_def blank_def split: option.splits list.splits Content.splits)

lemma extractText_Inr:
  "extractText r = Inr resp \<Longrightarrow> continuation resp \<noteq> [] \<and> \<not> blank (continuation resp)"
  by (auto simp: extractText_def Let_def blank_def trim_trim split: if_splits)

lemma attemptOnce_Resolved:
  "attemptOnce gen p n = (Resolved resp, n') \<Longrightarrow> \<exists>r. extractText r = Inr resp"
  by (auto simp: attemptOnce_def generateParagraph_def split: prod.splits sum.splits option.splits)

lemma retryLoop_Inr:
  "retryLoop fn mx d a l evs s = (Inr v, evs', s') \<Longrightarrow> \<exists>sa sb. fn sa = (Resolved v, sb)"
proof (induction fn mx d a l evs s rule: retryLoop.induct)
  case (1 fn maxRetries initialDelay attempt lastError evs s)
  show ?case
  proof (cases "attempt < maxRetries")
    case False
    then show ?thesis using "1.prems" by (simp add: retryLoop.simps [of fn maxRetries initialDelay attempt])
  next
    case True
    obtain out sn where f: "fn s = (out, sn)" by (cases "fn s")
    show ?thesis
    proof (cases out)
      case (Resolved w)
      then show ?thesis using "1.prems" True f
        by (auto simp: retryLoop.simps [of fn maxRetries initialDelay attempt])
    next
      case (Rejected e)
      show ?thesis
      proof (cases "\<not> isRetryable (asError ''Unknown error'' e) \<or> attempt = maxRetries - 1")
        case True
        then show ?thesis using "1.prems" \<open>attempt < maxRetries\<close> f Rejected
          by (auto simp: retryLoop.simps [of fn maxRetries initialDelay attempt])
      next
        case False
        then show ?thesis
          using "1.prems" \<open>attempt < maxRetries\<close> f Rejected
            "1.IH" [OF \<open>attempt < maxRetries\<close> f [symmetric] Rejected refl False]
          by (simp add: retryLoop.simps [of fn maxRetries initialDelay attempt])
      qed
    qed
  qed
qed


lemma empty_response_not_retryable:
  "friendlyError (Error ''Empty response from API. The model did not generate any content.'') =
     ''Failed to generate paragraph: Empty response from API. The model did not generate any content.'' \<and>
   \<not> isRetryable
     ''Failed to generate paragraph: Empty response from API. The model did not generate any content.''"
  by (simp add: friendlyError_def isRetryable_def)

lemma continueWriting_Inr:
  assumes "continueWriting gen apiKey request n = (Inr resp, evs, n')"
  shows "\<exists>r. extractText r = Inr resp"
proof -
  let ?fn = "attemptOnce gen (buildPrompt (trim (request_text request)))"
  have "retryWithBackoff ?fn 3 1000 n = (Inr resp, evs, n')"
    using assms by (simp add: continueWriting_def Let_def split: if_splits)
  then obtain sa sb where "?fn sa = (Resolved resp, sb)"
    unfolding retryWithBackoff_def using retryLoop_Inr [of ?fn 3 1000 0 None "[]" n resp evs n']
    by blast
  then show ?thesis by (rule attemptOnce_Resolved)
qed

text \<open>
  C6. When the text accessor and the first candidate's parts both yield only blank text,
  the extraction fails with the empty-response error, and \<open>continueWriting\<close> with a
  credential and a text, having received such a response from the fallback loop, fails
  with that error (under the prefix that the outer handler adds) after a single
  invocation: the message is not retryable. Whenever \<open>continueWriting\<close> returns a
  response, its \<open>continuation\<close> is neither empty nor blank.
\<close>

theorem empty_extraction_fails:
  "(allPathsBlank r \<longrightarrow>
      extractText r =
        Inl (Error ''Empty response from API. The model did not generate any content.'')) \<and>
   (apiKey = Some k \<and> k \<noteq> [] \<and> trim (request_text request) \<noteq> [] \<and>
    tryModels gen (buildPrompt (trim (request_text request))) modelsToTry None n =
      (Inr (Some r, l), n') \<and>
    allPathsBlank r \<longrightarrow>
      continueWriting gen apiKey request n =
        (Inl ''Failed to generate paragraph: Empty response from API. The model did not generate any content.'',
         [Invoke], n')) \<and>
   (continueWriting gen apiKey request n = (Inr resp, evs, n'') \<longrightarrow>
      continuation resp \<noteq> [] \<and> \<not> blank (continuation resp))"
proof -
  let ?p = "buildPrompt (trim (request_text request))"
  let ?m = "''Failed to generate paragraph: Empty response from API. The model did not generate any content.''"
  have b: "continueWriting gen apiKey request n = (Inl ?m, [Invoke], n')"
    if k: "apiKey = Some k" "k \<noteq> []" "trim (request_text request) \<noteq> []"
      and t: "tryModels gen ?p modelsToTry None n = (Inr (Some r, l), n')"
      and bl: "allPathsBlank r"
  proof -
    have "attemptOnce gen ?p n = (Rejected (Error ?m), n')"
      using t extractText_blank [OF bl] empty_response_not_retryable
      by (simp add: attemptOnce_def generateParagraph_def)
    then have "retryWithBackoff (attemptOnce gen ?p) 3 1000 n = (Inl ?m, [Invoke], n')"
      using retry_fatal_first [where fn = "attemptOnce gen ?p" and sa = n and ea = "Error ?m"
          and sb = n' and d = 1000] empty_response_not_retryable
      by (simp add: asError_def)
    then show ?thesis using k by (simp add: continueWriting_retry)
  qed
  have c: "continuation resp \<noteq> [] \<and> \<not> blank (continuation resp)"
    if "continueWriting gen apiKey request n = (Inr resp, evs, n'')"
    using continueWriting_Inr [OF that] extractText_Inr by blast
  show ?thesis using extractText_blank [of r] b c by blast
qed

theorem empty_extraction_fails_witness:
  "allPathsBlank blank_response \<and>
   extractText blank_response =
     Inl (Error ''Empty response from API. The model did not generate any content.'') \<and>
   continueWriting blank_provider (Some ''key'') \<lparr>request_text = ''The sea''\<rparr>
       \<lparr>world = 0, requests = []\<rparr> =
     (Inl ''Failed to generate paragraph: Empty response from API. The model did not generate any content.'',
      [Invoke], \<lparr>world = 1, requests = [''gemini-2.5-flash'']\<rparr>) \<and>
   continueWriting example_provider (Some ''key'') \<lparr>request_text = ''The sea''\<rparr>
       \<lparr>world = 0, requests = []\<rparr> =
     (Inr \<lparr>continuation = ''A paragraph.''\<rparr>, [Invoke],
      \<lparr>world = 3, requests = [''gemini-2.5-flash'', ''gemini-2.5-pro'', ''gemini-1.5-flash'']\<rparr>) \<and>
   continuation \<lparr>continuation = ''A paragraph.''\<rparr> \<noteq> []"
proof -
  let ?n = "\<lparr>world = 0 :: nat, requests = []\<rparr>"
  let ?rq = "\<lparr>request_text = ''The sea''\<rparr>"
  let ?p = "buildPrompt (trim (request_text ?rq))"
  have bl: "allPathsBlank blank_response"
    by (simp add: allPathsBlank_def candidateParts_def blank_response_def blank_def partsText_def
        trim_def isWhiteSpace_def)
  have tr: "trim (request_text ?rq) \<noteq> []" by (simp add: trim_def isWhiteSpace_def)
  have t: "tryModels blank_provider ?p modelsToTry None ?n =
      (Inr (Some blank_response, None), \<lparr>world = 1, requests = [''gemini-2.5-flash'']\<rparr>)"
    by (simp add: modelsToTry_def generateContent_def blank_provider_def)
  have ok: "continueWriting example_provider (Some ''key'') ?rq ?n =
     (Inr \<lparr>continuation = ''A paragraph.''\<rparr>, [Invoke],
      \<lparr>world = 3, requests = [''gemini-2.5-flash'', ''gemini-2.5-pro'', ''gemini-1.5-flash'']\<rparr>)"
    using tr
    by (simp add: continueWriting_def retryWithBackoff_def retryLoop.simps [of _ 3 _ 0]
        attemptOnce_def generateParagraph_def modelsToTry_def generateContent_def
        example_provider_def isNotFound_def asError_def extractText_def secondText_def
        firstText_def example_response_def blank_def trim_def isWhiteSpace_def)
  show ?thesis
    using bl tr t ok
      empty_extraction_fails [where r = blank_response and apiKey = "Some ''key''"
        and k = "''key''" and request = ?rq and gen = blank_provider and n = ?n and l = None
        and n' = "\<lparr>world = 1, requests = [''gemini-2.5-flash'']\<rparr>"]
      empty_extraction_fails [where gen = example_provider and apiKey = "Some ''key''"
        and request = ?rq and n = ?n and resp = "\<lparr>continuation = ''A paragraph.''\<rparr>"
        and evs = "[Invoke]"
        and n'' = "\<lparr>world = 3, requests = [''gemini-2.5-flash'', ''gemini-2.5-pro'', ''gemini-1.5-flash'']\<rparr>"]
    by simp
qed

text \<open>
  C3. With no credential configured, a request whose text is blank fails with the
  configuration error, not with the validation error: the credential is tested first.
\<close>

theorem blank_request_counterexample:
  "trim (request_text \<lparr>request_text = ''  ''\<rparr>) = [] \<and>
   fst (continueWriting example_provider None \<lparr>request_text = ''  ''\<rparr>
          \<lparr>world = 0, requests = []\<rparr>) \<noteq> Inl ''No text provided.''"
  by (simp add: continueWriting_def trim_def isWhiteSpace_def)

text \<open>
  C3, as the code has it. A request whose text is empty after trimming fails before any
  call is issued (no invocation of the retried operation, no wait, no request to the
  provider, whose state is untouched): with the validation error when a credential is
  configured, and with the configuration error when none is.
\<close>

theorem blank_request_rejected:
  "trim (request_text request) = [] \<longrightarrow>
     continueWriting gen apiKey request n =
       (Inl (if apiKey = None \<or> apiKey = Some []
             then ''Gemini API key is not configured. Please set VITE_GEMINI_API_KEY in your .env file.''
             else ''No text provided.''),
        [], n)"
  by (simp add: continueWriting_def)

theorem blank_request_rejected_witness:
  "trim (request_text \<lparr>request_text = ''  ''\<rparr>) = [] \<and>
   continueWriting example_provider (Some ''key'') \<lparr>request_text = ''  ''\<rparr>
       \<lparr>world = 0, requests = []\<rparr> =
     (Inl ''No text provided.'', [], \<lparr>world = 0, requests = []\<rparr>) \<and>
   continueWriting example_provider None \<lparr>request_text = ''  ''\<rparr>
       \<lparr>world = 0, requests = []\<rparr> =
     (Inl ''Gemini API key is not configured. Please set VITE_GEMINI_API_KEY in your .env file.'',
      [], \<lparr>world = 0, requests = []\<rparr>)"
proof -
  have h: "trim (request_text \<lparr>request_text = ''  ''\<rparr>) = []"
    by (simp add: trim_def isWhiteSpace_def)
  show ?thesis
    using h
      blank_request_rejected [where request = "\<lparr>request_text = ''  ''\<rparr>"
        and gen = example_provider and apiKey = "Some ''key''"
        and n = "\<lparr>world = 0, requests = []\<rparr>"]
      blank_request_rejected [where request = "\<lparr>request_text = ''  ''\<rparr>"
        and gen = example_provider and apiKey = None
        and n = "\<lparr>world = 0, requests = []\<rparr>"]
    by simp
qed

section \<open>Properties of the streaming animator\<close>

lemma completions_sleep: "completions (sleep env d e) = completions e"
  by (simp add: sleep_def)

lemma completions_streamLoop: "completions (streamLoop env cs e) = completions e"
  by (induction cs arbitrary: e) (simp_all add: completions_sleep split: option.splits)

lemma streamLoop_no_view: "viewRef e = None \<Longrightarrow> streamLoop env cs e = e"
  by (cases cs) simp_all

lemma streamLoop_quiet:
  "viewRef e = Some doc \<Longrightarrow> viewRef (streamLoop quiet cs e) = Some (doc @ cs)"
  by (induction cs arbitrary: e doc) (simp_all add: sleep_def quiet_def)

lemma viewRef_sleep_quiet: "viewRef (sleep quiet d e) = viewRef e"
  by (simp add: sleep_def quiet_def)

lemma stripNewlines_none:
  "str = [] \<or> hd str \<noteq> newline \<Longrightarrow> stripNewlines [] str = ([], str)"
  by (cases str) simp_all

text \<open>
  C4. The view is destroyed during the first wait of a stream of three characters (the
  injected space, then \<open>ab\<close>): the loop stops after that single wait, and the callback
  is invoked all the same.
\<close>

theorem stream_destroyed_counterexample:
  "viewRef (streamContent ''ab'' True (unmount_during 0)
      \<lparr>viewRef = Some ''Hi'', timers = [], completions = 0\<rparr>) = None \<and>
   timers (streamContent ''ab'' True (unmount_during 0)
      \<lparr>viewRef = Some ''Hi'', timers = [], completions = 0\<rparr>) = [15] \<and>
   completions (streamContent ''ab'' True (unmount_during 0)
      \<lparr>viewRef = Some ''Hi'', timers = [], completions = 0\<rparr>) \<noteq> 0"
  by (simp add: streamContent_def newline_def needsSpace_def isWhiteSpace_def sleep_def
      unmount_during_def charDelay_def)

text \<open>
  C4, as the code has it. Once the view is gone the loop stops at its next test: it
  inserts nothing more and waits no more, so a view destroyed during the wait after a
  character leaves the rest of the characters unrevealed. The callback, when given, is
  invoked once after the loop whenever there was a view at the start, also when the
  loop was left early.
\<close>

theorem stream_destroyed_stops:
  "(viewRef e = None \<longrightarrow> streamLoop env cs e = e) \<and>
   (viewRef e = Some doc \<and> env (length (timers e)) (Some (doc @ [c])) = None \<longrightarrow>
      streamLoop env (c # cs) e =
        e\<lparr>viewRef := None, timers := timers e @ [charDelay c]\<rparr>) \<and>
   (viewRef e \<noteq> None \<longrightarrow>
      completions (streamContent str True env e) = completions e + 1)"
proof -
  have a: "viewRef e = None \<longrightarrow> streamLoop env cs e = e"
    by (simp add: streamLoop_no_view)
  have b: "viewRef e = Some doc \<and> env (length (timers e)) (Some (doc @ [c])) = None \<longrightarrow>
      streamLoop env (c # cs) e = e\<lparr>viewRef := None, timers := timers e @ [charDelay c]\<rparr>"
    by (simp add: streamLoop_no_view sleep_def)
  have c: "viewRef e \<noteq> None \<longrightarrow> completions (streamContent str True env e) = completions e + 1"
    by (auto simp: streamContent_def Let_def completions_streamLoop completions_sleep
        split: prod.splits)
  show ?thesis using a b c by blast
qed

theorem stream_destroyed_stops_witness:
  "viewRef \<lparr>viewRef = Some ''Hi'', timers = [], completions = 0\<rparr> = Some ''Hi'' \<and>
   unmount_during 0 (length (timers \<lparr>viewRef = Some ''Hi'', timers = [], completions = 0\<rparr>))
     (Some (''Hi'' @ ''a'')) = None \<and>
   streamLoop (unmount_during 0) ''ab'' \<lparr>viewRef = Some ''Hi'', timers = [], completions = 0\<rparr> =
     \<lparr>viewRef = None, timers = [40], completions = 0\<rparr> \<and>
   streamLoop (unmount_during 0) ''b'' \<lparr>viewRef = None, timers = [40], completions = 0\<rparr> =
     \<lparr>viewRef = None, timers = [40], completions = 0\<rparr> \<and>
   completions (streamContent ''ab'' True (unmount_during 0)
      \<lparr>viewRef = Some ''Hi'', timers = [], completions = 0\<rparr>) = 1"
proof -
  let ?e = "\<lparr>viewRef = Some ''Hi'', timers = [], completions = 0\<rparr>"
  let ?e' = "\<lparr>viewRef = None, timers = [40], completions = 0\<rparr>"
  have h: "unmount_during 0 (length (timers ?e)) (Some (''Hi'' @ ''a'')) = None"
    by (simp add: unmount_during_def)
  have d: "charDelay CHR ''a'' = 40"
    by (simp add: charDelay_def isWhiteSpace_def isPunctuation_def isLetter_def)
  show ?thesis
    using h d
      stream_destroyed_stops [where e = ?e and env = "unmount_during 0" and doc = "''Hi''"
        and c = "CHR ''a''" and cs = "''b''" and str = "''ab''"]
      stream_destroyed_stops [where e = ?e' and env = "unmount_during 0" and cs = "''b''"]
    by simp
qed

text \<open>
  C5. Streaming \<open>'' world''\<close> after the text \<open>''Hi''\<close> does not give \<open>''Hi world''\<close>.
\<close>

theorem stream_spacing_counterexample:
  "viewRef (streamContent '' world'' False quiet
      \<lparr>viewRef = Some ''Hi'', timers = [], completions = 0\<rparr>) \<noteq> Some ''Hi world''"
  by (simp add: streamContent_def newline_def needsSpace_def isWhiteSpace_def sleep_def
      quiet_def)

text \<open>
  C5, as the code has it. With nothing else acting on the document and a text without
  leading newline, the document's text becomes the old text, one space when the old text
  ends in a character that is not whitespace, and the streamed text as it is. So
  \<open>''Hello''\<close> on the empty document gives \<open>''Hello''\<close>, with no space injected, and
  \<open>'' world''\<close> after \<open>''Hi''\<close> gives \<open>''Hi  world''\<close>, with the injected space and the
  text's own.
\<close>

theorem stream_spacing:
  "(viewRef e = Some doc \<and> (str = [] \<or> hd str \<noteq> newline) \<longrightarrow>
      viewRef (streamContent str onComplete quiet e) =
        Some (doc @ (if needsSpace doc then '' '' else []) @ str)) \<and>
   viewRef (streamContent ''Hello'' onComplete quiet
      \<lparr>viewRef = Some [], timers = ts, completions = k\<rparr>) = Some ''Hello'' \<and>
   viewRef (streamContent '' world'' onComplete quiet
      \<lparr>viewRef = Some ''Hi'', timers = ts, completions = k\<rparr>) = Some ''Hi  world''"
proof -
  have g: "viewRef (streamContent str onComplete quiet e) =
        Some (doc @ (if needsSpace doc then '' '' else []) @ str)"
    if "viewRef e = Some doc" "str = [] \<or> hd str \<noteq> newline" for e doc str
    using that stripNewlines_none [of str]
    by (simp add: streamContent_def Let_def streamLoop_quiet viewRef_sleep_quiet)
  have n: "\<not> needsSpace []" "needsSpace ''Hi''"
    by (simp_all add: needsSpace_def isWhiteSpace_def)
  have "viewRef (streamContent ''Hello'' onComplete quiet
      \<lparr>viewRef = Some [], timers = ts, completions = k\<rparr>) = Some ''Hello''"
    using g [of "\<lparr>viewRef = Some [], timers = ts, completions = k\<rparr>" "[]" "''Hello''"] n
    by (simp add: newline_def)
  moreover have "viewRef (streamContent '' world'' onComplete quiet
      \<lparr>viewRef = Some ''Hi'', timers = ts, completions = k\<rparr>) = Some ''Hi  world''"
    using g [of "\<lparr>viewRef = Some ''Hi'', timers = ts, completions = k\<rparr>" "''Hi''" "'' world''"] n
    by (simp add: newline_def)
  ultimately show ?thesis using g [of e doc str] by blast
qed

theorem stream_spacing_witness:
  "viewRef \<lparr>viewRef = Some ''Hi.'', timers = [], completions = 0\<rparr> = Some ''Hi.'' \<and>
   hd ''Bye'' \<noteq> newline \<and> needsSpace ''Hi.'' \<and>
   viewRef (streamContent ''Bye'' True quiet
      \<lparr>viewRef = Some ''Hi.'', timers = [], completions = 0\<rparr>) = Some ''Hi. Bye''"
proof -
  have h: "hd ''Bye'' \<noteq> newline" by (simp add: newline_def)
  have n: "needsSpace ''Hi.''" by (simp add: needsSpace_def isWhiteSpace_def)
  show ?thesis
    using h n
      stream_spacing [where e = "\<lparr>viewRef = Some ''Hi.'', timers = [], completions = 0\<rparr>"
        and doc = "''Hi.''" and str = "''Bye''" and onComplete = True]
    by simp
qed

section \<open>Properties of the toolbar state\<close>

lemma scanNodes_everywhere:
  "fst (scanNodes mark nodes (ev, cur, found)) \<longleftrightarrow>
     ev \<and> (\<forall>node \<in> set nodes. nodeHasMark node mark)"
  by (induction nodes arbitrary: ev cur found) (auto split: option.splits)

lemma rangeLoop_block:
  "activeMarks (fst (rangeLoop ms (\<lparr>marks = []\<rparr> # nodes) (t, found))) = activeMarks t"
proof (induction ms arbitrary: t found)
  case Nil
  then show ?case by simp
next
  case (Cons mark rest)
  obtain ev cur found' where
    sc: "scanNodes mark (\<lparr>marks = []\<rparr> # nodes) (True, fontSize t, found) = (ev, cur, found')"
    by (cases "scanNodes mark (\<lparr>marks = []\<rparr> # nodes) (True, fontSize t, found)")
  have "\<not> ev"
    using scanNodes_everywhere [of mark "\<lparr>marks = []\<rparr> # nodes" True "fontSize t" found] sc
    by (simp add: nodeHasMark_def)
  then show ?case using sc Cons.IH by simp
qed

text \<open>
  C9. The code does not report a mark that every content unit of the selection carries.
  In the paragraph with the text nodes \<open>ab\<close>, bold, and \<open>cd\<close>, bold and italic, the
  selection of both visits the paragraph and then the two text nodes; the paragraph has
  no marks, so the test for bold fails on it and the active set is empty, although both
  units are bold. The same holds for every list of visited nodes that starts with a node
  without marks, whatever the marks at the start of the selection: no mark is reported.
\<close>

theorem range_marks_block_node:
  "walkBetween two_bold_units 0 1 5 =
     [\<lparr>marks = []\<rparr>, \<lparr>marks = [bold]\<rparr>, \<lparr>marks = [italic, bold]\<rparr>] \<and>
   updateToolbar (range_selection two_bold_units [bold] 1 5) =
     \<lparr>activeMarks = [], fontSize = ''16px''\<rparr> \<and>
   activeMarks (fst (rangeLoop ms (\<lparr>marks = []\<rparr> # nodes)
     (\<lparr>activeMarks = [], fontSize = ''16px''\<rparr>, False))) = []"
proof -
  have w: "walkBetween two_bold_units 0 1 5 =
     [\<lparr>marks = []\<rparr>, \<lparr>marks = [bold]\<rparr>, \<lparr>marks = [italic, bold]\<rparr>]"
    by (simp add: two_bold_units_def)
  have u: "updateToolbar (range_selection two_bold_units [bold] 1 5) =
     \<lparr>activeMarks = [], fontSize = ''16px''\<rparr>"
    by (simp add: updateToolbar_def range_selection_def w nodeHasMark_def bold_def)
  show ?thesis using w u by (simp add: rangeLoop_block)
qed

end
